theory Spec2Isabelle
  imports Main "HOL-Library.Sublist"
begin

section \<open>The startup orchestrator of \<^verbatim>\<open>src-electron/main-process/electron-main.js\<close>\<close>

text \<open>
  The file wires Electron's lifecycle signals (\<^verbatim>\<open>ready\<close>, \<^verbatim>\<open>window-all-closed\<close>,
  \<^verbatim>\<open>activate\<close>, \<^verbatim>\<open>quit\<close>) to promise chains over external collaborators: the store
  (\<^verbatim>\<open>dbApi\<close>), the metadata loader (\<^verbatim>\<open>zclLoader\<close>), the template loader
  (\<^verbatim>\<open>generatorEngine\<close>), the generators, the HTTP server and the window manager.

  The embedding keeps the shape of the source. A promise is a state transformer that
  yields an outcome (resolved, rejected, or never settling); \<^verbatim>\<open>.then\<close> and
  \<^verbatim>\<open>.catch\<close> are the two combinators below; every call of a collaborator, every log
  line and every termination request is appended to a trace held in the state. The
  collaborators are parameters: a record of functions from the arguments of a call to the
  outcome of the promise it returns.
\<close>

subsection \<open>JavaScript values\<close>

datatype jsval = JUndefined | JNull | JBool bool | JNum int | JStr string

text \<open>Truthiness, as the conditional operator and \<^verbatim>\<open>if\<close> and \<^verbatim>\<open>!\<close> read a value.\<close>

fun truthy :: "jsval \<Rightarrow> bool" where
  "truthy JUndefined = False"
| "truthy JNull = False"
| "truthy (JBool b) = b"
| "truthy (JNum n) = (n \<noteq> 0)"
| "truthy (JStr s) = (s \<noteq> [])"

text \<open>\<^verbatim>\<open>v != null\<close> is the loose comparison: false for \<^verbatim>\<open>null\<close> and \<^verbatim>\<open>undefined\<close> only.\<close>

fun not_nullish :: "jsval \<Rightarrow> bool" where
  "not_nullish JUndefined = False"
| "not_nullish JNull = False"
| "not_nullish v = True"

text \<open>A JavaScript \<^verbatim>\<open>Error\<close>, by its message.\<close>

datatype error = Error string

subsection \<open>Arguments and configuration\<close>

text \<open>
  \<^verbatim>\<open>argv\<close> is the object that \<^verbatim>\<open>args.processCommandLineArguments\<close> returns; the field
  \<open>positional\<close> is \<^verbatim>\<open>argv._\<close>.
\<close>

record argv =
  positional :: "jsval list"
  clearDb :: jsval
  output_dir :: jsval
  template :: jsval
  zclProperties :: jsval
  noUi :: jsval
  showUrl :: jsval
  uiMode :: jsval

text \<open>
  What the handlers read from the modules \<^verbatim>\<open>env\<close> and \<^verbatim>\<open>args\<close> and from the host:
  \<^verbatim>\<open>env.sqliteFile()\<close>, \<^verbatim>\<open>env.schemaFile()\<close>, \<^verbatim>\<open>env.zapVersion()\<close>,
  \<^verbatim>\<open>args.zclPropertiesFile\<close>, \<^verbatim>\<open>args.genTemplateJsonFile\<close>, \<^verbatim>\<open>args.httpPort\<close>,
  whether \<^verbatim>\<open>app.dock\<close> exists, and \<^verbatim>\<open>process.platform\<close>.
\<close>

record config =
  sqliteFile :: string
  schemaFile :: string
  zapVersion :: string
  zclPropertiesFile :: jsval
  genTemplateJsonFile :: jsval
  httpPort :: nat
  hasDock :: bool
  platform :: string

subsection \<open>Store handles, contexts, outcomes\<close>

type_synonym db_handle = nat

text \<open>The context object the loaders resolve to; the chains read its \<^verbatim>\<open>db\<close> field.\<close>

record ctx =
  db :: db_handle

datatype 'a outcome = Resolved 'a | Rejected error | Pending

subsection \<open>Observable events\<close>

datatype event =
    LogInitStdout
  | ConsoleLog string
  | LogInfo string
  | LogInfoArgv argv
  | LogWarning string
  | LogError error
  | AppQuit
  | DockHide
  | UnlinkSync string
  | RenameSync string string
  | InitDatabase string
  | SetMainDatabase db_handle
  | LoadSchema db_handle string string
  | LoadZcl db_handle jsval
  | LoadTemplates db_handle jsval
  | InitHttpServer db_handle nat
  | InitializeElectronUi "nat option" jsval
  | WindowCreateIfNotThere nat
  | SetHandlebarTemplateDirForCli jsval
  | GenerateCodeViaCli jsval
  | RunSdkGeneration db_handle jsval jsval
  | CloseDatabase "db_handle option"

subsection \<open>Process state\<close>

text \<open>
  \<open>mainDatabase\<close> is the handle behind \<^verbatim>\<open>env.setMainDatabase\<close> and
  \<^verbatim>\<open>env.mainDatabase()\<close>; \<open>httpServerPort\<close> is what \<^verbatim>\<open>httpServer.httpServerPort()\<close>
  returns; \<open>files\<close> is the file system, from paths to contents; \<open>unlinkFault\<close> and
  \<open>renameFault\<close> say which calls of \<^verbatim>\<open>fs.unlinkSync\<close> and \<^verbatim>\<open>fs.renameSync\<close> the
  operating system refuses for an existing file (a directory in the way, missing
  permission, a busy file), and with what error.
\<close>

record state =
  mainDatabase :: "db_handle option"
  httpServerPort :: "nat option"
  files :: "string \<rightharpoonup> string"
  unlinkFault :: "string \<Rightarrow> error option"
  renameFault :: "string \<Rightarrow> string \<Rightarrow> error option"
  trace :: "event list"

subsection \<open>The collaborators\<close>

text \<open>
  Each field gives the outcome of the promise the collaborator returns for the given
  arguments. \<open>initHttpServer\<close> resolves to the port the server is bound to.
\<close>

record collab =
  initDatabase :: "string \<Rightarrow> db_handle outcome"
  loadSchema :: "db_handle \<Rightarrow> string \<Rightarrow> string \<Rightarrow> db_handle outcome"
  loadZcl :: "db_handle \<Rightarrow> jsval \<Rightarrow> ctx outcome"
  loadTemplates :: "db_handle \<Rightarrow> jsval \<Rightarrow> ctx outcome"
  initHttpServer :: "db_handle \<Rightarrow> nat \<Rightarrow> nat outcome"
  setHandlebarTemplateDirForCli :: "jsval \<Rightarrow> jsval outcome"
  generateCodeViaCli :: "jsval \<Rightarrow> unit outcome"
  runSdkGeneration :: "db_handle \<Rightarrow> jsval \<Rightarrow> jsval \<Rightarrow> unit outcome"
  closeDatabase :: "db_handle option \<Rightarrow> unit outcome"

subsection \<open>Promises\<close>

type_synonym 'a promise = "state \<Rightarrow> 'a outcome \<times> state"

definition emit :: "event \<Rightarrow> unit promise" where
  "emit e s = (Resolved (), s\<lparr>trace := trace s @ [e]\<rparr>)"

text \<open>Calling a collaborator: the call is recorded, the promise settles as the collaborator says.\<close>

definition invoke :: "event \<Rightarrow> 'a outcome \<Rightarrow> 'a promise" where
  "invoke e r s = (r, s\<lparr>trace := trace s @ [e]\<rparr>)"

definition resolve :: "'a \<Rightarrow> 'a promise" where
  "resolve v s = (Resolved v, s)"

definition throw :: "error \<Rightarrow> 'a promise" where
  "throw e s = (Rejected e, s)"

text \<open>\<^verbatim>\<open>p.then(f)\<close>: \<open>f\<close> runs on the value \<open>p\<close> resolves to; a rejection passes through.\<close>

definition then_p :: "'a promise \<Rightarrow> ('a \<Rightarrow> 'b promise) \<Rightarrow> 'b promise" where
  "then_p p f s =
     (case p s of
        (Resolved v, s') \<Rightarrow> f v s'
      | (Rejected e, s') \<Rightarrow> (Rejected e, s')
      | (Pending, s') \<Rightarrow> (Pending, s'))"

text \<open>\<^verbatim>\<open>p.catch(h)\<close>: \<open>h\<close> runs on the error \<open>p\<close> rejects with; a value passes through.\<close>

definition catch_p :: "'a promise \<Rightarrow> (error \<Rightarrow> 'a promise) \<Rightarrow> 'a promise" where
  "catch_p p h s =
     (case p s of
        (Rejected e, s') \<Rightarrow> h e s'
      | (Resolved v, s') \<Rightarrow> (Resolved v, s')
      | (Pending, s') \<Rightarrow> (Pending, s'))"

text \<open>The events a run adds to the trace it starts from.\<close>

definition emitted :: "(state \<Rightarrow> 'r \<times> state) \<Rightarrow> state \<Rightarrow> event list" where
  "emitted p s = drop (length (trace s)) (trace (snd (p s)))"

definition result :: "(state \<Rightarrow> 'r \<times> state) \<Rightarrow> state \<Rightarrow> 'r" where
  "result p s = fst (p s)"

subsection \<open>The chains\<close>

text \<open>
  \<^verbatim>\<open>attachToDb\<close> (lines 41-46): registers the handle as the process-wide current one and
  resolves to it.
\<close>

definition attachToDb :: "db_handle \<Rightarrow> db_handle promise" where
  "attachToDb d s =
     (Resolved d, s\<lparr>mainDatabase := Some d, trace := trace s @ [SetMainDatabase d]\<rparr>)"

text \<open>
  \<^verbatim>\<open>httpServer.initHttpServer\<close>: when it resolves, \<^verbatim>\<open>httpServer.httpServerPort()\<close> is the
  bound port from then on. The chain drops the resolved value.
\<close>

definition httpServer_initHttpServer :: "collab \<Rightarrow> db_handle \<Rightarrow> nat \<Rightarrow> unit promise" where
  "httpServer_initHttpServer c d port s =
     (case initHttpServer c d port of
        Resolved p \<Rightarrow>
          (Resolved (), s\<lparr>httpServerPort := Some p, trace := trace s @ [InitHttpServer d port]\<rparr>)
      | Rejected e \<Rightarrow> (Rejected e, s\<lparr>trace := trace s @ [InitHttpServer d port]\<rparr>)
      | Pending \<Rightarrow> (Pending, s\<lparr>trace := trace s @ [InitHttpServer d port]\<rparr>))"

text \<open>\<^verbatim>\<open>startSelfCheck\<close> (lines 48-67). The source drops the chain; its outcome is kept here.\<close>

definition startSelfCheck :: "collab \<Rightarrow> config \<Rightarrow> unit promise" where
  "startSelfCheck c cfg =
     then_p (emit LogInitStdout) (\<lambda>_.
     then_p (emit (ConsoleLog ''Starting self-check'')) (\<lambda>_.
     catch_p
       (then_p
         (then_p
           (then_p
             (then_p
               (then_p
                 (invoke (InitDatabase (sqliteFile cfg)) (initDatabase c (sqliteFile cfg)))
                 (\<lambda>d. attachToDb d))
               (\<lambda>d. invoke (LoadSchema d (schemaFile cfg) (zapVersion cfg))
                            (loadSchema c d (schemaFile cfg) (zapVersion cfg))))
             (\<lambda>d. invoke (LoadZcl d (zclPropertiesFile cfg)) (loadZcl c d (zclPropertiesFile cfg))))
           (\<lambda>x. invoke (LoadTemplates (db x) (genTemplateJsonFile cfg))
                        (loadTemplates c (db x) (genTemplateJsonFile cfg))))
         (\<lambda>x. then_p (emit (ConsoleLog ''Self-check done!'')) (\<lambda>_. emit AppQuit)))
       (\<lambda>err. then_p (emit (LogError err)) (\<lambda>_. throw err))))"

text \<open>
  A port number in a template literal: its decimal digits. Before a server has started
  \<^verbatim>\<open>httpServerPort()\<close> is \<^verbatim>\<open>undefined\<close>.
\<close>

fun number_toString :: "nat \<Rightarrow> string" where
  "number_toString n =
     (if n < 10 then [''0123456789'' ! n]
      else number_toString (n div 10) @ [''0123456789'' ! (n mod 10)])"

declare number_toString.simps [simp del]

fun port_toString :: "nat option \<Rightarrow> string" where
  "port_toString None = ''undefined''"
| "port_toString (Some n) = number_toString n"

definition url_line :: "nat option \<Rightarrow> string" where
  "url_line p = ''url: http://localhost:'' @ port_toString p @ ''/index.html''"

text \<open>\<^verbatim>\<open>startNormal\<close> (lines 69-100). The source drops the chain; its outcome is kept here.\<close>

definition startNormal :: "collab \<Rightarrow> config \<Rightarrow> jsval \<Rightarrow> jsval \<Rightarrow> jsval \<Rightarrow> unit promise" where
  "startNormal c cfg uiEnabled showUrl_arg uiMode_arg =
     catch_p
       (then_p
         (then_p
           (then_p
             (then_p
               (then_p
                 (then_p
                   (invoke (InitDatabase (sqliteFile cfg)) (initDatabase c (sqliteFile cfg)))
                   (\<lambda>d. attachToDb d))
                 (\<lambda>d. invoke (LoadSchema d (schemaFile cfg) (zapVersion cfg))
                              (loadSchema c d (schemaFile cfg) (zapVersion cfg))))
               (\<lambda>d. invoke (LoadZcl d (zclPropertiesFile cfg)) (loadZcl c d (zclPropertiesFile cfg))))
             (\<lambda>x. invoke (LoadTemplates (db x) (genTemplateJsonFile cfg))
                          (loadTemplates c (db x) (genTemplateJsonFile cfg))))
           (\<lambda>x. httpServer_initHttpServer c (db x) (httpPort cfg)))
         (\<lambda>_. if truthy uiEnabled
               then (\<lambda>s. emit (InitializeElectronUi (httpServerPort s) uiMode_arg) s)
               else then_p (if hasDock cfg then emit DockHide else resolve ()) (\<lambda>_.
                    if truthy showUrl_arg
                    then (\<lambda>s. emit (ConsoleLog (url_line (httpServerPort s))) s)
                    else resolve ())))
       (\<lambda>err. then_p (emit (LogError err)) (\<lambda>_. throw err))"

text \<open>\<^verbatim>\<open>setGenerationDirAndTemplateDir\<close> (lines 135-143).\<close>

definition setGenerationDirAndTemplateDir :: "collab \<Rightarrow> jsval \<Rightarrow> jsval \<Rightarrow> unit promise" where
  "setGenerationDirAndTemplateDir c generationDir handlebarTemplateDir =
     (if truthy handlebarTemplateDir
      then then_p
             (invoke (SetHandlebarTemplateDirForCli handlebarTemplateDir)
                     (setHandlebarTemplateDirForCli c handlebarTemplateDir))
             (\<lambda>_. invoke (GenerateCodeViaCli generationDir) (generateCodeViaCli c generationDir))
      else invoke (GenerateCodeViaCli generationDir) (generateCodeViaCli c generationDir))"

text \<open>\<^verbatim>\<open>applyGenerationSettings\<close> (lines 107-127).\<close>

definition applyGenerationSettings ::
  "collab \<Rightarrow> config \<Rightarrow> jsval \<Rightarrow> jsval \<Rightarrow> jsval \<Rightarrow> unit promise" where
  "applyGenerationSettings c cfg generationDir handlebarTemplateDir zclPropertiesFilePath =
     then_p (emit (LogInfo ''Start Generation...'')) (\<lambda>_.
     then_p
       (then_p
         (then_p
           (then_p
             (then_p
               (invoke (InitDatabase (sqliteFile cfg)) (initDatabase c (sqliteFile cfg)))
               (\<lambda>d. attachToDb d))
             (\<lambda>d. invoke (LoadSchema d (schemaFile cfg) (zapVersion cfg))
                          (loadSchema c d (schemaFile cfg) (zapVersion cfg))))
           (\<lambda>d. invoke
                   (LoadZcl d (if truthy zclPropertiesFilePath then zclPropertiesFilePath
                               else zclPropertiesFile cfg))
                   (loadZcl c d (if truthy zclPropertiesFilePath then zclPropertiesFilePath
                                 else zclPropertiesFile cfg))))
         (\<lambda>x. setGenerationDirAndTemplateDir c generationDir handlebarTemplateDir))
       (\<lambda>res. emit AppQuit))"

text \<open>\<^verbatim>\<open>startSdkGeneration\<close> (lines 145-169).\<close>

definition startSdkGeneration ::
  "collab \<Rightarrow> config \<Rightarrow> jsval \<Rightarrow> jsval \<Rightarrow> jsval \<Rightarrow> unit promise" where
  "startSdkGeneration c cfg generationDir handlebarTemplateDir zclPropertiesFilePath =
     then_p (emit (LogInfo ''Start SDK generation...'')) (\<lambda>_.
     then_p
       (then_p
         (then_p
           (then_p
             (then_p
               (invoke (InitDatabase (sqliteFile cfg)) (initDatabase c (sqliteFile cfg)))
               (\<lambda>d. attachToDb d))
             (\<lambda>d. invoke (LoadSchema d (schemaFile cfg) (zapVersion cfg))
                          (loadSchema c d (schemaFile cfg) (zapVersion cfg))))
           (\<lambda>d. invoke
                   (LoadZcl d (if truthy zclPropertiesFilePath then zclPropertiesFilePath
                               else zclPropertiesFile cfg))
                   (loadZcl c d (if truthy zclPropertiesFilePath then zclPropertiesFilePath
                                 else zclPropertiesFile cfg))))
         (\<lambda>x. invoke (RunSdkGeneration (db x) generationDir handlebarTemplateDir)
                      (runSdkGeneration c (db x) generationDir handlebarTemplateDir)))
       (\<lambda>res. emit AppQuit))"

subsection \<open>The store file\<close>

text \<open>
  The three calls of \<^verbatim>\<open>fs\<close> the source makes. They are synchronous: a failure is a thrown
  error (\<open>Inl\<close>), and a call that fails writes nothing.
\<close>

definition existsSync :: "string \<Rightarrow> state \<Rightarrow> bool" where
  "existsSync p s = (files s p \<noteq> None)"

definition unlinkSync :: "string \<Rightarrow> state \<Rightarrow> (error + unit) \<times> state" where
  "unlinkSync p s =
     (if files s p = None then (Inl (Error ''ENOENT''), s)
      else (case unlinkFault s p of
              Some e \<Rightarrow> (Inl e, s)
            | None \<Rightarrow>
                (Inr (), s\<lparr>files := (files s)(p := None), trace := trace s @ [UnlinkSync p]\<rparr>)))"

definition renameSync :: "string \<Rightarrow> string \<Rightarrow> state \<Rightarrow> (error + unit) \<times> state" where
  "renameSync old new s =
     (if files s old = None then (Inl (Error ''ENOENT''), s)
      else (case renameFault s old new of
              Some e \<Rightarrow> (Inl e, s)
            | None \<Rightarrow>
                (Inr (), s\<lparr>files := ((files s)(old := None))(new := files s old),
                          trace := trace s @ [RenameSync old new]\<rparr>)))"

definition logWarning :: "string \<Rightarrow> state \<Rightarrow> state" where
  "logWarning m s = s\<lparr>trace := trace s @ [LogWarning m]\<rparr>"

text \<open>\<^verbatim>\<open>clearDatabaseFile\<close> (lines 171-184).\<close>

definition clearDatabaseFile :: "config \<Rightarrow> state \<Rightarrow> (error + unit) \<times> state" where
  "clearDatabaseFile cfg s =
     (let path = sqliteFile cfg; pathBak = path @ ''~'' in
      if existsSync path s then
        (case (if existsSync pathBak s
               then unlinkSync pathBak (logWarning (''Deleting old backup file: '' @ pathBak) s)
               else (Inr (), s)) of
           (Inl e, s1) \<Rightarrow> (Inl e, s1)
         | (Inr u, s1) \<Rightarrow>
             renameSync path pathBak
               (logWarning (''Database restart requested, moving file: '' @ path @ '' to '' @ pathBak) s1))
      else (Inr (), s))"

subsection \<open>The lifecycle handlers\<close>

text \<open>
  The four handlers the file registers on \<^verbatim>\<open>app\<close> (when \<^verbatim>\<open>app\<close> is not null), each as
  what it does when its signal arrives.

  \<^verbatim>\<open>Array.prototype.includes\<close> on \<^verbatim>\<open>argv._\<close>:
\<close>

definition includes_js :: "jsval list \<Rightarrow> jsval \<Rightarrow> bool" where
  "includes_js xs v = (v \<in> set xs)"

text \<open>
  The \<^verbatim>\<open>ready\<close> handler (lines 187-208). \<open>Inl\<close> is an error thrown out of the handler;
  \<open>Inr\<close> carries the outcome of the chain the handler started.
\<close>

definition on_ready :: "collab \<Rightarrow> config \<Rightarrow> argv \<Rightarrow> state \<Rightarrow> (error + unit outcome) \<times> state" where
  "on_ready c cfg a s =
     (case (if not_nullish (clearDb a)
            then clearDatabaseFile cfg (s\<lparr>trace := trace s @ [LogInfoArgv a]\<rparr>)
            else (Inr (), s\<lparr>trace := trace s @ [LogInfoArgv a]\<rparr>)) of
        (Inl e, s1) \<Rightarrow> (Inl e, s1)
      | (Inr u, s1) \<Rightarrow>
          (case (if includes_js (positional a) (JStr ''selfCheck'') then startSelfCheck c cfg s1
                 else if includes_js (positional a) (JStr ''generate'')
                 then applyGenerationSettings c cfg (output_dir a) (template a) (zclProperties a) s1
                 else if includes_js (positional a) (JStr ''sdkGen'')
                 then startSdkGeneration c cfg (output_dir a) (template a) (zclProperties a) s1
                 else startNormal c cfg (JBool (\<not> truthy (noUi a))) (showUrl a) (uiMode a) s1) of
             (r, s2) \<Rightarrow> (Inr r, s2)))"

text \<open>The \<^verbatim>\<open>window-all-closed\<close> handler (lines 210-214).\<close>

definition on_window_all_closed :: "config \<Rightarrow> unit promise" where
  "on_window_all_closed cfg = (if platform cfg \<noteq> ''darwin'' then emit AppQuit else resolve ())"

text \<open>The \<^verbatim>\<open>activate\<close> handler (lines 216-219).\<close>

definition on_activate :: "config \<Rightarrow> unit promise" where
  "on_activate cfg =
     then_p (emit (LogInfo ''Activate...'')) (\<lambda>_. emit (WindowCreateIfNotThere (httpPort cfg)))"

text \<open>The \<^verbatim>\<open>quit\<close> handler (lines 221-225).\<close>

definition on_quit :: "collab \<Rightarrow> unit promise" where
  "on_quit c =
     then_p (\<lambda>s. invoke (CloseDatabase (mainDatabase s)) (closeDatabase c (mainDatabase s)) s)
            (\<lambda>_. emit (LogInfo ''Database closed, shutting down.''))"

text \<open>
  What the \<^verbatim>\<open>quit\<close> handler function itself does when it is called: it calls
  \<^verbatim>\<open>closeDatabase\<close>, attaches the callback to the promise it gets, and returns. Its body is
  a block without a \<^verbatim>\<open>return\<close>, so it returns \<^verbatim>\<open>undefined\<close> whatever becomes of the
  promise: the caller is handed nothing to wait for.
\<close>

definition on_quit_returns :: "collab \<Rightarrow> state \<Rightarrow> jsval \<times> state" where
  "on_quit_returns c s =
     (JUndefined, snd (invoke (CloseDatabase (mainDatabase s)) (closeDatabase c (mainDatabase s)) s))"

section \<open>Reading a trace\<close>

text \<open>The five setup stages, and the stage a recorded call belongs to.\<close>

datatype stage = StoreOpen | Register | Schema | Metadata | Templates

fun stage_of :: "event \<Rightarrow> stage option" where
  "stage_of (InitDatabase p) = Some StoreOpen"
| "stage_of (SetMainDatabase d) = Some Register"
| "stage_of (LoadSchema d f v) = Some Schema"
| "stage_of (LoadZcl d p) = Some Metadata"
| "stage_of (LoadTemplates d p) = Some Templates"
| "stage_of e = None"

fun stages :: "event list \<Rightarrow> stage list" where
  "stages [] = []"
| "stages (e # es) = (case stage_of e of None \<Rightarrow> stages es | Some x \<Rightarrow> x # stages es)"

text \<open>The lines written by \<^verbatim>\<open>console.log\<close>, in order.\<close>

fun stdout_of :: "event list \<Rightarrow> string list" where
  "stdout_of [] = []"
| "stdout_of (ConsoleLog l # es) = l # stdout_of es"
| "stdout_of (e # es) = stdout_of es"

text \<open>The errors passed to \<^verbatim>\<open>env.logError\<close>, in order.\<close>

fun logged_errors :: "event list \<Rightarrow> error list" where
  "logged_errors [] = []"
| "logged_errors (LogError e # es) = e # logged_errors es"
| "logged_errors (e # es) = logged_errors es"

text \<open>The properties-file paths passed to \<^verbatim>\<open>zclLoader.loadZcl\<close>, in order.\<close>

fun zcl_paths :: "event list \<Rightarrow> jsval list" where
  "zcl_paths [] = []"
| "zcl_paths (LoadZcl d p # es) = p # zcl_paths es"
| "zcl_paths (e # es) = zcl_paths es"

text \<open>
  The calls that begin a mode's own action once setup is over: the server start of
  Normal, the generator calls of Generate and SdkGen, the success marker of SelfCheck.
\<close>

fun mode_action :: "event \<Rightarrow> bool" where
  "mode_action (InitHttpServer d p) = True"
| "mode_action (SetHandlebarTemplateDirForCli h) = True"
| "mode_action (GenerateCodeViaCli g) = True"
| "mode_action (RunSdkGeneration d g h) = True"
| "mode_action (ConsoleLog l) = (l = ''Self-check done!'')"
| "mode_action e = False"

text \<open>
  The outcome of the setup stages taken as one promise, as the chains compose them: each
  stage runs on what its predecessor resolved to, and the first stage that does not
  resolve decides. Registering the handle cannot fail. \<open>p\<close> is the properties file given
  to the metadata loader.
\<close>

definition setup_outcome :: "collab \<Rightarrow> config \<Rightarrow> jsval \<Rightarrow> ctx outcome" where
  "setup_outcome c cfg p =
     (case initDatabase c (sqliteFile cfg) of
        Resolved d \<Rightarrow>
          (case loadSchema c d (schemaFile cfg) (zapVersion cfg) of
             Resolved d' \<Rightarrow>
               (case loadZcl c d' p of
                  Resolved x \<Rightarrow> loadTemplates c (db x) (genTemplateJsonFile cfg)
                | Rejected e \<Rightarrow> Rejected e
                | Pending \<Rightarrow> Pending)
           | Rejected e \<Rightarrow> Rejected e
           | Pending \<Rightarrow> Pending)
      | Rejected e \<Rightarrow> Rejected e
      | Pending \<Rightarrow> Pending)"

text \<open>
  The generator calls of \<^verbatim>\<open>setGenerationDirAndTemplateDir\<close> do not read the state: their
  outcome and their events, taken from a run on the initial state.
\<close>

definition init_state :: state where
  "init_state = \<lparr>mainDatabase = None, httpServerPort = None, files = Map.empty,
                  unlinkFault = (\<lambda>p. None), renameFault = (\<lambda>old new. None), trace = []\<rparr>"

definition generation_outcome :: "collab \<Rightarrow> jsval \<Rightarrow> jsval \<Rightarrow> unit outcome" where
  "generation_outcome c g h = fst (setGenerationDirAndTemplateDir c g h init_state)"

definition generation_events :: "collab \<Rightarrow> jsval \<Rightarrow> jsval \<Rightarrow> event list" where
  "generation_events c g h = trace (snd (setGenerationDirAndTemplateDir c g h init_state))"

text \<open>
  The last callback of \<^verbatim>\<open>startNormal\<close> (lines 79-95), named, and the events it adds
  given what \<^verbatim>\<open>httpServer.httpServerPort()\<close> returns.
\<close>

definition ui_events :: "config \<Rightarrow> jsval \<Rightarrow> jsval \<Rightarrow> jsval \<Rightarrow> nat option \<Rightarrow> event list" where
  "ui_events cfg uiEnabled showUrl_arg uiMode_arg port =
     (if truthy uiEnabled then [InitializeElectronUi port uiMode_arg]
      else (if hasDock cfg then [DockHide] else []) @
           (if truthy showUrl_arg then [ConsoleLog (url_line port)] else []))"

definition normal_ui :: "config \<Rightarrow> jsval \<Rightarrow> jsval \<Rightarrow> jsval \<Rightarrow> unit promise" where
  "normal_ui cfg uiEnabled showUrl_arg uiMode_arg =
     (if truthy uiEnabled
      then (\<lambda>s. emit (InitializeElectronUi (httpServerPort s) uiMode_arg) s)
      else then_p (if hasDock cfg then emit DockHide else resolve ()) (\<lambda>_.
           if truthy showUrl_arg
           then (\<lambda>s. emit (ConsoleLog (url_line (httpServerPort s))) s)
           else resolve ()))"

text \<open>
  Strict stage order on the events \<open>tr\<close> of a run that ends with the registered handle
  \<open>m\<close>, where \<open>p\<close> is the properties file given to the metadata loader. The stage calls
  occur in the fixed order, each at most once. A stage is called only when its
  predecessor has resolved, and on what the predecessor resolved to: the schema load only
  when the store has opened and its handle has been registered, the metadata load only
  when the schema load has resolved, the template load only when the metadata load has
  resolved. A stage that does not resolve is the last stage called.
\<close>

definition strict_stage_order ::
  "collab \<Rightarrow> config \<Rightarrow> jsval \<Rightarrow> event list \<Rightarrow> db_handle option \<Rightarrow> bool" where
  "strict_stage_order c cfg p tr m \<longleftrightarrow>
     prefix (stages tr) [StoreOpen, Register, Schema, Metadata, Templates] \<and>
     (Schema \<in> set (stages tr) \<longrightarrow>
        (\<exists>d. initDatabase c (sqliteFile cfg) = Resolved d \<and> m = Some d \<and>
             SetMainDatabase d \<in> set tr \<and>
             LoadSchema d (schemaFile cfg) (zapVersion cfg) \<in> set tr)) \<and>
     (Metadata \<in> set (stages tr) \<longrightarrow>
        (\<exists>d d'. initDatabase c (sqliteFile cfg) = Resolved d \<and>
                loadSchema c d (schemaFile cfg) (zapVersion cfg) = Resolved d' \<and>
                LoadZcl d' p \<in> set tr)) \<and>
     (Templates \<in> set (stages tr) \<longrightarrow>
        (\<exists>d d' x. initDatabase c (sqliteFile cfg) = Resolved d \<and>
                  loadSchema c d (schemaFile cfg) (zapVersion cfg) = Resolved d' \<and>
                  loadZcl c d' p = Resolved x \<and>
                  LoadTemplates (db x) (genTemplateJsonFile cfg) \<in> set tr)) \<and>
     ((\<forall>d. initDatabase c (sqliteFile cfg) \<noteq> Resolved d) \<longrightarrow> stages tr = [StoreOpen]) \<and>
     (\<forall>d. initDatabase c (sqliteFile cfg) = Resolved d \<and>
          (\<forall>d'. loadSchema c d (schemaFile cfg) (zapVersion cfg) \<noteq> Resolved d') \<longrightarrow>
          stages tr = [StoreOpen, Register, Schema]) \<and>
     (\<forall>d d'. initDatabase c (sqliteFile cfg) = Resolved d \<and>
             loadSchema c d (schemaFile cfg) (zapVersion cfg) = Resolved d' \<and>
             (\<forall>x. loadZcl c d' p \<noteq> Resolved x) \<longrightarrow>
             stages tr = [StoreOpen, Register, Schema, Metadata])"

section \<open>Command classification, as the specification words it\<close>

text \<open>
  The four commands, the first-match priority among the recognised tokens, and the
  workflow each command stands for with the arguments the \<^verbatim>\<open>ready\<close> handler passes.
  \<open>ready_prelude\<close> is what the handler does before it branches: it logs the arguments
  and, when \<^verbatim>\<open>argv.clearDb\<close> is neither null nor undefined, rotates the store file.
\<close>

datatype command = SelfCheck | Generate | SdkGen | Normal

definition classify :: "jsval list \<Rightarrow> command" where
  "classify tokens =
     (if JStr ''selfCheck'' \<in> set tokens then SelfCheck
      else if JStr ''generate'' \<in> set tokens then Generate
      else if JStr ''sdkGen'' \<in> set tokens then SdkGen
      else Normal)"

fun run_command :: "collab \<Rightarrow> config \<Rightarrow> argv \<Rightarrow> command \<Rightarrow> unit promise" where
  "run_command c cfg a SelfCheck = startSelfCheck c cfg"
| "run_command c cfg a Generate =
     applyGenerationSettings c cfg (output_dir a) (template a) (zclProperties a)"
| "run_command c cfg a SdkGen =
     startSdkGeneration c cfg (output_dir a) (template a) (zclProperties a)"
| "run_command c cfg a Normal =
     startNormal c cfg (JBool (\<not> truthy (noUi a))) (showUrl a) (uiMode a)"

definition ready_prelude :: "config \<Rightarrow> argv \<Rightarrow> state \<Rightarrow> (error + unit) \<times> state" where
  "ready_prelude cfg a s =
     (if not_nullish (clearDb a)
      then clearDatabaseFile cfg (s\<lparr>trace := trace s @ [LogInfoArgv a]\<rparr>)
      else (Inr (), s\<lparr>trace := trace s @ [LogInfoArgv a]\<rparr>))"

text \<open>
  Reading a decimal numeral: the value of a string of digits, most significant digit
  first, and whether a string is a numeral in canonical form (digits only, not empty, no
  leading zero except for zero itself).
\<close>

definition digit_value :: "char \<Rightarrow> nat" where
  "digit_value ch = of_char ch - 48"

definition decimal_value :: "string \<Rightarrow> nat" where
  "decimal_value ds = foldl (\<lambda>n ch. 10 * n + digit_value ch) 0 ds"

definition canonical_decimal :: "string \<Rightarrow> bool" where
  "canonical_decimal ds \<longleftrightarrow>
     ds \<noteq> [] \<and> set ds \<subseteq> set ''0123456789'' \<and> (length ds > 1 \<longrightarrow> hd ds \<noteq> CHR ''0'')"

section \<open>Example inputs\<close>

text \<open>
  A configuration with an ephemeral port, collaborators that all resolve (the server binds
  port 49152 when asked for port 0), collaborators whose schema load or whose generators
  reject, and a file system holding both the store file and an older backup.
\<close>

definition cfg0 :: config where
  "cfg0 = \<lparr>sqliteFile = ''zap.sqlite'', schemaFile = ''zap-schema.sql'', zapVersion = ''1.0.0'',
          zclPropertiesFile = JStr ''zcl.properties'', genTemplateJsonFile = JStr ''gen-templates.json'',
          httpPort = 0, hasDock = False, platform = ''linux''\<rparr>"

definition c_ok :: collab where
  "c_ok = \<lparr>initDatabase = (\<lambda>p. Resolved 1),
          loadSchema = (\<lambda>d f v. Resolved d),
          loadZcl = (\<lambda>d p. Resolved \<lparr>db = d\<rparr>),
          loadTemplates = (\<lambda>d p. Resolved \<lparr>db = d\<rparr>),
          initHttpServer = (\<lambda>d port. Resolved (if port = 0 then 49152 else port)),
          setHandlebarTemplateDirForCli = (\<lambda>h. Resolved h),
          generateCodeViaCli = (\<lambda>g. Resolved ()),
          runSdkGeneration = (\<lambda>d g h. Resolved ()),
          closeDatabase = (\<lambda>d. Resolved ())\<rparr>"

definition c_schema_fails :: collab where
  "c_schema_fails = c_ok\<lparr>loadSchema := (\<lambda>d f v. Rejected (Error ''schema version mismatch''))\<rparr>"

definition c_generation_fails :: collab where
  "c_generation_fails =
     c_ok\<lparr>generateCodeViaCli := (\<lambda>g. Rejected (Error ''generation failed'')),
          runSdkGeneration := (\<lambda>d g h. Rejected (Error ''generation failed''))\<rparr>"

definition s_both_files :: state where
  "s_both_files = init_state\<lparr>files := [''zap.sqlite'' \<mapsto> ''current'', ''zap.sqlite~'' \<mapsto> ''previous'']\<rparr>"

definition s_unlink_refused :: state where
  "s_unlink_refused = s_both_files\<lparr>unlinkFault := (\<lambda>p. Some (Error ''EACCES''))\<rparr>"

definition argv_reset :: argv where
  "argv_reset = \<lparr>positional = [], clearDb = JBool True, output_dir = JUndefined,
                 template = JUndefined, zclProperties = JUndefined, noUi = JBool True,
                 showUrl = JBool True, uiMode = JUndefined\<rparr>"

definition c_close_pending :: collab where
  "c_close_pending = c_ok\<lparr>closeDatabase := (\<lambda>d. Pending)\<rparr>"

definition s_registered :: state where
  "s_registered = init_state\<lparr>mainDatabase := Some 1\<rparr>"

definition argv_headless :: argv where
  "argv_headless = \<lparr>positional = [], clearDb = JUndefined, output_dir = JUndefined,
                    template = JUndefined, zclProperties = JUndefined, noUi = JBool True,
                    showUrl = JBool True, uiMode = JUndefined\<rparr>"

definition argv_all_tokens :: argv where
  "argv_all_tokens = argv_headless\<lparr>positional := [JStr ''sdkGen'', JStr ''generate'', JStr ''selfCheck'']\<rparr>"

section \<open>Proof tools\<close>

lemmas chain_defs = emit_def invoke_def throw_def resolve_def then_p_def catch_p_def
  attachToDb_def httpServer_initHttpServer_def emitted_def result_def

lemmas fixture_defs = cfg0_def c_ok_def c_schema_fails_def c_generation_fails_def
  s_both_files_def init_state_def argv_headless_def argv_all_tokens_def s_unlink_refused_def
  argv_reset_def c_close_pending_def s_registered_def

text \<open>
  How far the setup stages get: every run falls under exactly one of these nine cases.
\<close>

lemma setup_cases [case_names open_rejects open_pending schema_rejects schema_pending
    metadata_rejects metadata_pending templates_rejects templates_pending all_resolved]:
  obtains
    e where "initDatabase c (sqliteFile cfg) = Rejected e"
  | "initDatabase c (sqliteFile cfg) = Pending"
  | d e where "initDatabase c (sqliteFile cfg) = Resolved d"
      "loadSchema c d (schemaFile cfg) (zapVersion cfg) = Rejected e"
  | d where "initDatabase c (sqliteFile cfg) = Resolved d"
      "loadSchema c d (schemaFile cfg) (zapVersion cfg) = Pending"
  | d d' e where "initDatabase c (sqliteFile cfg) = Resolved d"
      "loadSchema c d (schemaFile cfg) (zapVersion cfg) = Resolved d'"
      "loadZcl c d' p = Rejected e"
  | d d' where "initDatabase c (sqliteFile cfg) = Resolved d"
      "loadSchema c d (schemaFile cfg) (zapVersion cfg) = Resolved d'"
      "loadZcl c d' p = Pending"
  | d d' x e where "initDatabase c (sqliteFile cfg) = Resolved d"
      "loadSchema c d (schemaFile cfg) (zapVersion cfg) = Resolved d'"
      "loadZcl c d' p = Resolved x"
      "loadTemplates c (db x) (genTemplateJsonFile cfg) = Rejected e"
  | d d' x where "initDatabase c (sqliteFile cfg) = Resolved d"
      "loadSchema c d (schemaFile cfg) (zapVersion cfg) = Resolved d'"
      "loadZcl c d' p = Resolved x"
      "loadTemplates c (db x) (genTemplateJsonFile cfg) = Pending"
  | d d' x y where "initDatabase c (sqliteFile cfg) = Resolved d"
      "loadSchema c d (schemaFile cfg) (zapVersion cfg) = Resolved d'"
      "loadZcl c d' p = Resolved x"
      "loadTemplates c (db x) (genTemplateJsonFile cfg) = Resolved y"
proof (cases "initDatabase c (sqliteFile cfg)")
  case (Resolved d)
  note init = this
  show ?thesis
  proof (cases "loadSchema c d (schemaFile cfg) (zapVersion cfg)")
    case (Resolved d')
    note schema = this
    show ?thesis
    proof (cases "loadZcl c d' p")
      case (Resolved x)
      with init schema that show ?thesis
        by (cases "loadTemplates c (db x) (genTemplateJsonFile cfg)") blast+
    qed (use init schema that in blast)+
  qed (use init that in blast)+
qed (use that in blast)+

lemma setGeneration_run:
  "setGenerationDirAndTemplateDir c g h s =
     (generation_outcome c g h, s\<lparr>trace := trace s @ generation_events c g h\<rparr>)"
  by (simp add: setGenerationDirAndTemplateDir_def generation_outcome_def generation_events_def
        init_state_def chain_defs split: outcome.split)

lemma generation_events_zcl_paths: "zcl_paths (generation_events c g h) = []"
  by (simp add: setGenerationDirAndTemplateDir_def generation_events_def init_state_def chain_defs
        split: outcome.split)

lemma zcl_paths_append: "zcl_paths (xs @ ys) = zcl_paths xs @ zcl_paths ys"
  by (induction xs rule: zcl_paths.induct) simp_all


lemma startNormal_alt:
  "startNormal c cfg u su um =
     catch_p
       (then_p
         (then_p
           (then_p
             (then_p
               (then_p
                 (then_p
                   (invoke (InitDatabase (sqliteFile cfg)) (initDatabase c (sqliteFile cfg)))
                   (\<lambda>d. attachToDb d))
                 (\<lambda>d. invoke (LoadSchema d (schemaFile cfg) (zapVersion cfg))
                              (loadSchema c d (schemaFile cfg) (zapVersion cfg))))
               (\<lambda>d. invoke (LoadZcl d (zclPropertiesFile cfg)) (loadZcl c d (zclPropertiesFile cfg))))
             (\<lambda>x. invoke (LoadTemplates (db x) (genTemplateJsonFile cfg))
                          (loadTemplates c (db x) (genTemplateJsonFile cfg))))
           (\<lambda>x. httpServer_initHttpServer c (db x) (httpPort cfg)))
         (\<lambda>_. normal_ui cfg u su um))
       (\<lambda>err. then_p (emit (LogError err)) (\<lambda>_. throw err))"
  unfolding startNormal_def normal_ui_def by (rule refl)

lemma normal_ui_run:
  "normal_ui cfg u su um s =
     (Resolved (), s\<lparr>trace := trace s @ ui_events cfg u su um (httpServerPort s)\<rparr>)"
  by (simp add: normal_ui_def ui_events_def chain_defs)

lemma stages_append: "stages (xs @ ys) = stages xs @ stages ys"
  by (induction xs) (simp_all split: option.splits)

lemma generation_events_stages: "stages (generation_events c g h) = []"
  by (simp add: setGenerationDirAndTemplateDir_def generation_events_def init_state_def chain_defs
        split: outcome.split)

lemma ui_events_stages: "stages (ui_events cfg u su um p) = []"
  by (simp add: ui_events_def)


lemma generation_events_action:
  "\<exists>e es. generation_events c g h = e # es \<and> mode_action e"
  by (simp add: setGenerationDirAndTemplateDir_def generation_events_def init_state_def chain_defs
        split: outcome.split)

lemmas run_simps = setGeneration_run normal_ui_run stages_append generation_events_stages
  ui_events_stages

lemma selfCheck_prefix:
  "prefix (stages (emitted (startSelfCheck c cfg) s)) [StoreOpen, Register, Schema, Metadata, Templates]"
  by (simp add: startSelfCheck_def chain_defs split: outcome.split)

lemma normal_prefix:
  "prefix (stages (emitted (startNormal c cfg u su um) s)) [StoreOpen, Register, Schema, Metadata, Templates]"
  by (simp add: startNormal_alt run_simps chain_defs split: outcome.split split del: if_split)

lemma generation_prefix:
  "prefix (stages (emitted (applyGenerationSettings c cfg g h z) s)) [StoreOpen, Register, Schema, Metadata]"
  by (simp add: applyGenerationSettings_def run_simps chain_defs split: outcome.split split del: if_split)

lemma sdk_prefix:
  "prefix (stages (emitted (startSdkGeneration c cfg g h z) s)) [StoreOpen, Register, Schema, Metadata]"
  by (simp add: startSdkGeneration_def chain_defs split: outcome.split split del: if_split)

lemma generation_events_until_action:
  "takeWhile (\<lambda>e. \<not> mode_action e) (generation_events c g h) = []"
  by (simp add: setGenerationDirAndTemplateDir_def generation_events_def init_state_def chain_defs
        split: outcome.split)

lemma generation_events_then_until_action:
  "takeWhile (\<lambda>e. \<not> mode_action e) (generation_events c g h @ ys) = []"
proof -
  obtain e es where "generation_events c g h = e # es" "mode_action e"
    using generation_events_action by blast
  then show ?thesis by simp
qed

lemma generation_events_has_action: "\<exists>e \<in> set (generation_events c g h). mode_action e"
  by (simp add: setGenerationDirAndTemplateDir_def generation_events_def init_state_def chain_defs
        split: outcome.split)

lemma generation_events_no_stage: "s \<notin> set (stages (generation_events c g h))"
  by (simp add: generation_events_stages)

lemma stdout_of_append: "stdout_of (xs @ ys) = stdout_of xs @ stdout_of ys"
  by (induction xs rule: stdout_of.induct) simp_all

lemma generation_events_stdout: "stdout_of (generation_events c g h) = []"
  by (simp add: setGenerationDirAndTemplateDir_def generation_events_def init_state_def chain_defs
        split: outcome.split)

lemma selfCheck_extends: "trace (snd (startSelfCheck c cfg s)) = trace s @ emitted (startSelfCheck c cfg) s"
  by (cases rule: setup_cases [where c = c and cfg = cfg and p = "zclPropertiesFile cfg"])
     (simp_all add: startSelfCheck_def chain_defs)

lemma normal_extends:
  "trace (snd (startNormal c cfg u su um s)) = trace s @ emitted (startNormal c cfg u su um) s"
  by (cases rule: setup_cases [where c = c and cfg = cfg and p = "zclPropertiesFile cfg"])
     (simp_all add: startNormal_alt normal_ui_run chain_defs split: outcome.split)

lemma generation_extends:
  "trace (snd (applyGenerationSettings c cfg g h z s))
     = trace s @ emitted (applyGenerationSettings c cfg g h z) s"
  by (cases rule: setup_cases
        [where c = c and cfg = cfg and p = "if truthy z then z else zclPropertiesFile cfg"])
     (simp_all add: applyGenerationSettings_def setGeneration_run chain_defs split: outcome.split
        split del: if_split)

lemma sdk_extends:
  "trace (snd (startSdkGeneration c cfg g h z s)) = trace s @ emitted (startSdkGeneration c cfg g h z) s"
  by (cases rule: setup_cases
        [where c = c and cfg = cfg and p = "if truthy z then z else zclPropertiesFile cfg"])
     (simp_all add: startSdkGeneration_def chain_defs split: outcome.split split del: if_split)

lemma run_command_extends:
  "trace (snd (run_command c cfg a k s)) = trace s @ emitted (run_command c cfg a k) s"
  by (cases k) (simp_all add: selfCheck_extends normal_extends generation_extends sdk_extends)

lemma on_ready_unfold:
  "on_ready c cfg a s =
     (case ready_prelude cfg a s of
        (Inl e, s1) \<Rightarrow> (Inl e, s1)
      | (Inr u, s1) \<Rightarrow>
          (case run_command c cfg a (classify (positional a)) s1 of (r, s2) \<Rightarrow> (Inr r, s2)))"
  by (simp add: on_ready_def ready_prelude_def classify_def includes_js_def
        split: prod.split sum.split)

lemma selfCheck_stdout:
  "set (stdout_of (emitted (startSelfCheck c cfg) s)) \<subseteq> {''Starting self-check'', ''Self-check done!''}"
  by (cases rule: setup_cases [where c = c and cfg = cfg and p = "zclPropertiesFile cfg"])
     (simp_all add: startSelfCheck_def chain_defs)

lemma generation_stdout: "stdout_of (emitted (applyGenerationSettings c cfg g h z) s) = []"
  by (cases rule: setup_cases
        [where c = c and cfg = cfg and p = "if truthy z then z else zclPropertiesFile cfg"])
     (simp_all add: applyGenerationSettings_def setGeneration_run chain_defs stdout_of_append
        generation_events_stdout split: outcome.split split del: if_split)

lemma sdk_stdout: "stdout_of (emitted (startSdkGeneration c cfg g h z) s) = []"
  by (cases rule: setup_cases
        [where c = c and cfg = cfg and p = "if truthy z then z else zclPropertiesFile cfg"])
     (simp_all add: startSdkGeneration_def chain_defs split: outcome.split split del: if_split)

lemma normal_stdout:
  "stdout_of (emitted (startNormal c cfg u su um) s) =
     (case setup_outcome c cfg (zclPropertiesFile cfg) of
        Resolved x \<Rightarrow>
          (case initHttpServer c (db x) (httpPort cfg) of
             Resolved p \<Rightarrow> (if \<not> truthy u \<and> truthy su then [url_line (Some p)] else [])
           | Rejected e \<Rightarrow> []
           | Pending \<Rightarrow> [])
      | Rejected e \<Rightarrow> []
      | Pending \<Rightarrow> [])"
  by (cases rule: setup_cases [where c = c and cfg = cfg and p = "zclPropertiesFile cfg"])
     (simp_all add: startNormal_alt normal_ui_run ui_events_def setup_outcome_def chain_defs
        stdout_of_append split: outcome.split)

lemma not_url_line: "''Starting self-check'' \<noteq> url_line q" "''Self-check done!'' \<noteq> url_line q"
  by (simp_all add: url_line_def)

lemma ready_prelude_extends:
  "trace (snd (ready_prelude cfg a s)) = trace s @ emitted (ready_prelude cfg a) s"
  by (simp add: ready_prelude_def clearDatabaseFile_def existsSync_def unlinkSync_def renameSync_def
        logWarning_def Let_def emitted_def split: option.split)

lemma ready_prelude_stdout: "stdout_of (emitted (ready_prelude cfg a) s) = []"
  by (simp add: ready_prelude_def clearDatabaseFile_def existsSync_def unlinkSync_def renameSync_def
        logWarning_def Let_def emitted_def split: option.split)

lemma ready_prelude_quiet: "\<not> not_nullish (clearDb a) \<Longrightarrow> fst (ready_prelude cfg a s) = Inr ()"
  by (simp add: ready_prelude_def)

lemma on_ready_thrown:
  assumes "fst (ready_prelude cfg a s) = Inl e"
  shows "result (on_ready c cfg a) s = Inl e"
    and "emitted (on_ready c cfg a) s = emitted (ready_prelude cfg a) s"
proof -
  obtain s1 where p: "ready_prelude cfg a s = (Inl e, s1)"
    using assms by (cases "ready_prelude cfg a s") auto
  then have run: "on_ready c cfg a s = (Inl e, s1)"
    by (simp add: on_ready_unfold)
  show "result (on_ready c cfg a) s = Inl e"
    using run by (simp add: result_def)
  show "emitted (on_ready c cfg a) s = emitted (ready_prelude cfg a) s"
    using run p by (simp add: emitted_def)
qed

lemma on_ready_started:
  assumes "fst (ready_prelude cfg a s) = Inr ()"
  shows "result (on_ready c cfg a) s =
           Inr (result (run_command c cfg a (classify (positional a))) (snd (ready_prelude cfg a s)))"
    and "emitted (on_ready c cfg a) s =
           emitted (ready_prelude cfg a) s @
           emitted (run_command c cfg a (classify (positional a))) (snd (ready_prelude cfg a s))"
proof -
  let ?W = "run_command c cfg a (classify (positional a))"
  obtain s1 where p: "ready_prelude cfg a s = (Inr (), s1)"
    using assms by (cases "ready_prelude cfg a s") auto
  have tr1: "trace s1 = trace s @ emitted (ready_prelude cfg a) s"
    using ready_prelude_extends [of cfg a s] p by simp
  obtain r s2 where w: "?W s1 = (r, s2)" by (cases "?W s1")
  have tr2: "trace s2 = trace s1 @ emitted ?W s1"
    using run_command_extends [of c cfg a "classify (positional a)" s1] w by simp
  have run: "on_ready c cfg a s = (Inr r, s2)"
    using p w by (simp add: on_ready_unfold)
  show "result (on_ready c cfg a) s = Inr (result ?W (snd (ready_prelude cfg a s)))"
    using run p w by (simp add: result_def)
  show "emitted (on_ready c cfg a) s
      = emitted (ready_prelude cfg a) s @ emitted ?W (snd (ready_prelude cfg a s))"
    using run p tr1 tr2 by (simp add: emitted_def [of "on_ready c cfg a"])
qed

lemma on_ready_stdout:
  "stdout_of (emitted (on_ready c cfg a) s) = [] \<or>
   stdout_of (emitted (on_ready c cfg a) s)
     = stdout_of (emitted (run_command c cfg a (classify (positional a)))
                    (snd (ready_prelude cfg a s)))"
proof (cases "fst (ready_prelude cfg a s)")
  case (Inl e)
  then show ?thesis
    by (simp add: on_ready_thrown ready_prelude_stdout)
next
  case (Inr u)
  then show ?thesis
    by (simp add: on_ready_started stdout_of_append ready_prelude_stdout)
qed

lemma ready_prelude_stages: "stages (emitted (ready_prelude cfg a) s) = []"
  by (simp add: ready_prelude_def clearDatabaseFile_def existsSync_def unlinkSync_def renameSync_def
        logWarning_def Let_def emitted_def split: option.split)

lemma digit_char_value: "k < 10 \<Longrightarrow> digit_value (''0123456789'' ! k) = k"
proof -
  assume "k < 10"
  then have "k \<in> {0, 1, 2, 3, 4, 5, 6, 7, 8, 9}" by auto
  then show ?thesis by (auto simp: digit_value_def)
qed

lemma digit_char_nonzero: "0 < k \<Longrightarrow> k < 10 \<Longrightarrow> ''0123456789'' ! k \<noteq> CHR ''0''"
proof -
  assume "0 < k" "k < 10"
  then have "k \<in> {1, 2, 3, 4, 5, 6, 7, 8, 9}" by auto
  then show ?thesis by auto
qed

lemma decimal_value_snoc: "decimal_value (ds @ [ch]) = 10 * decimal_value ds + digit_value ch"
  by (simp add: decimal_value_def)

lemma decimal_value_number_toString: "decimal_value (number_toString n) = n"
proof (induction n rule: number_toString.induct)
  case (1 n)
  show ?case
  proof (cases "n < 10")
    case True
    then show ?thesis
      by (simp add: number_toString.simps [of n] decimal_value_def digit_char_value)
  next
    case False
    with "1.IH" show ?thesis
      by (simp add: number_toString.simps [of n] decimal_value_snoc digit_char_value)
  qed
qed

lemma number_toString_digits: "set (number_toString n) \<subseteq> set ''0123456789''"
proof (induction n rule: number_toString.induct)
  case (1 n)
  have d: "''0123456789'' ! k \<in> set ''0123456789''" if "k < 10" for k
    using that nth_mem [of k "''0123456789''"] by simp
  show ?case
  proof (cases "n < 10")
    case True
    then show ?thesis using d [of n] by (simp add: number_toString.simps [of n])
  next
    case False
    with "1.IH" show ?thesis using d [of "n mod 10"]
      by (simp add: number_toString.simps [of n])
  qed
qed

lemma number_toString_head: "0 < n \<Longrightarrow> number_toString n \<noteq> [] \<and> hd (number_toString n) \<noteq> CHR ''0''"
proof (induction n rule: number_toString.induct)
  case (1 n)
  show ?case
  proof (cases "n < 10")
    case True
    then have eq: "number_toString n = [''0123456789'' ! n]"
      by (simp add: number_toString.simps [of n])
    have nz: "''0123456789'' ! n \<noteq> CHR ''0''"
      using "1.prems" True by (rule digit_char_nonzero)
    from nz show ?thesis
      unfolding eq by (simp only: list.sel list.distinct not_False_eq_True simp_thms)
  next
    case False
    then have "0 < n div 10" by simp
    with "1.IH" False show ?thesis
      by (simp add: number_toString.simps [of n])
  qed
qed

lemma number_toString_canonical: "canonical_decimal (number_toString n)"
proof (cases "n = 0")
  case True
  then show ?thesis by (simp add: canonical_decimal_def number_toString.simps [of 0])
next
  case False
  then show ?thesis
    using number_toString_head [of n] number_toString_digits [of n]
    by (simp add: canonical_decimal_def)
qed

lemma not_url_form:
  "''Starting self-check'' \<noteq> ''url: http://localhost:'' @ ds"
  "''Self-check done!'' \<noteq> ''url: http://localhost:'' @ ds"
  by simp_all

section \<open>The store-reset rotation\<close>

text \<open>
  Claim C3. When \<^verbatim>\<open>clearDatabaseFile\<close> runs and no file exists at the store path, it
  returns normally and leaves the whole state as it was: nothing is written, nothing is
  logged. When the store file and a backup at the store path followed by \<^verbatim>\<open>~\<close> both
  exist and the operating system carries out the two calls, the old backup is unlinked
  first and the store file is then renamed to the backup path, and afterwards the file
  system differs from the one before in exactly two places: the store path holds no file
  and the backup path holds the contents the store file had. When the operating system
  refuses a call, its error is thrown to the caller: a refused unlink leaves the file
  system as it was, a refused rename leaves the store file in place with the old backup
  already gone.
\<close>

theorem clearDatabaseFile_rotation:
  "(files s (sqliteFile cfg) = None \<longrightarrow> clearDatabaseFile cfg s = (Inr (), s)) \<and>
   (files s (sqliteFile cfg) = Some content \<and> files s (sqliteFile cfg @ ''~'') = Some old \<and>
    unlinkFault s (sqliteFile cfg @ ''~'') = None \<and>
    renameFault s (sqliteFile cfg) (sqliteFile cfg @ ''~'') = None \<longrightarrow>
      result (clearDatabaseFile cfg) s = Inr () \<and>
      emitted (clearDatabaseFile cfg) s =
        [LogWarning (''Deleting old backup file: '' @ sqliteFile cfg @ ''~''),
         UnlinkSync (sqliteFile cfg @ ''~''),
         LogWarning (''Database restart requested, moving file: '' @ sqliteFile cfg @ '' to ''
                     @ sqliteFile cfg @ ''~''),
         RenameSync (sqliteFile cfg) (sqliteFile cfg @ ''~'')] \<and>
      files (snd (clearDatabaseFile cfg s)) =
        (files s)(sqliteFile cfg := None, sqliteFile cfg @ ''~'' \<mapsto> content)) \<and>
   (files s (sqliteFile cfg) = Some content \<and> files s (sqliteFile cfg @ ''~'') = Some old \<and>
    unlinkFault s (sqliteFile cfg @ ''~'') = Some e \<longrightarrow>
      result (clearDatabaseFile cfg) s = Inl e \<and>
      files (snd (clearDatabaseFile cfg s)) = files s) \<and>
   (files s (sqliteFile cfg) = Some content \<and> files s (sqliteFile cfg @ ''~'') = Some old \<and>
    unlinkFault s (sqliteFile cfg @ ''~'') = None \<and>
    renameFault s (sqliteFile cfg) (sqliteFile cfg @ ''~'') = Some e \<longrightarrow>
      result (clearDatabaseFile cfg) s = Inl e \<and>
      files (snd (clearDatabaseFile cfg s)) = (files s)(sqliteFile cfg @ ''~'' := None))"
  by (simp add: clearDatabaseFile_def existsSync_def unlinkSync_def renameSync_def logWarning_def
        Let_def emitted_def result_def)

theorem clearDatabaseFile_rotation_witness:
  "files init_state (sqliteFile cfg0) = None \<and> clearDatabaseFile cfg0 init_state = (Inr (), init_state) \<and>
   files s_both_files (sqliteFile cfg0) = Some ''current'' \<and>
   files s_both_files (sqliteFile cfg0 @ ''~'') = Some ''previous'' \<and>
   unlinkFault s_both_files (sqliteFile cfg0 @ ''~'') = None \<and>
   renameFault s_both_files (sqliteFile cfg0) (sqliteFile cfg0 @ ''~'') = None \<and>
   result (clearDatabaseFile cfg0) s_both_files = Inr () \<and>
   files (snd (clearDatabaseFile cfg0 s_both_files)) ''zap.sqlite~'' = Some ''current'' \<and>
   files (snd (clearDatabaseFile cfg0 s_both_files)) ''zap.sqlite'' = None \<and>
   unlinkFault s_unlink_refused (sqliteFile cfg0 @ ''~'') = Some (Error ''EACCES'') \<and>
   result (clearDatabaseFile cfg0) s_unlink_refused = Inl (Error ''EACCES'') \<and>
   files (snd (clearDatabaseFile cfg0 s_unlink_refused)) ''zap.sqlite~'' = Some ''previous''"
  using clearDatabaseFile_rotation [of init_state cfg0]
        clearDatabaseFile_rotation [of s_both_files cfg0 "''current''" "''previous''"]
        clearDatabaseFile_rotation
          [of s_unlink_refused cfg0 "''current''" "''previous''" "Error ''EACCES''"]
  by (simp add: fixture_defs)

section \<open>The one-shot modes\<close>

text \<open>
  Claim C10. In \<^verbatim>\<open>applyGenerationSettings\<close> and in \<^verbatim>\<open>startSdkGeneration\<close> the only
  properties-file path ever passed to the metadata loader is the override when the
  override is truthy, and \<^verbatim>\<open>args.zclPropertiesFile\<close> when it is falsy (undefined, null,
  the empty string, and every other falsy value); once the store has opened and the schema
  has loaded, the loader is called exactly once, with that path.
\<close>

theorem metadata_path_override:
  "set (zcl_paths (emitted (applyGenerationSettings c cfg g h z) s))
     \<subseteq> {if truthy z then z else zclPropertiesFile cfg} \<and>
   set (zcl_paths (emitted (startSdkGeneration c cfg g h z) s))
     \<subseteq> {if truthy z then z else zclPropertiesFile cfg} \<and>
   (initDatabase c (sqliteFile cfg) = Resolved d \<and>
    loadSchema c d (schemaFile cfg) (zapVersion cfg) = Resolved d' \<longrightarrow>
      zcl_paths (emitted (applyGenerationSettings c cfg g h z) s)
        = [if truthy z then z else zclPropertiesFile cfg] \<and>
      zcl_paths (emitted (startSdkGeneration c cfg g h z) s)
        = [if truthy z then z else zclPropertiesFile cfg])"
proof -
  let ?p = "if truthy z then z else zclPropertiesFile cfg"
  have gen: "set (zcl_paths (emitted (applyGenerationSettings c cfg g h z) s)) \<subseteq> {?p}"
    by (simp add: applyGenerationSettings_def setGeneration_run chain_defs zcl_paths_append
          generation_events_zcl_paths split: outcome.split split del: if_split)
  have sdk: "set (zcl_paths (emitted (startSdkGeneration c cfg g h z) s)) \<subseteq> {?p}"
    by (simp add: startSdkGeneration_def chain_defs split: outcome.split split del: if_split)
  have gen': "zcl_paths (emitted (applyGenerationSettings c cfg g h z) s) = [?p]"
    if "initDatabase c (sqliteFile cfg) = Resolved d"
       "loadSchema c d (schemaFile cfg) (zapVersion cfg) = Resolved d'"
    using that
    by (simp add: applyGenerationSettings_def setGeneration_run chain_defs zcl_paths_append
          generation_events_zcl_paths split: outcome.split split del: if_split)
  have sdk': "zcl_paths (emitted (startSdkGeneration c cfg g h z) s) = [?p]"
    if "initDatabase c (sqliteFile cfg) = Resolved d"
       "loadSchema c d (schemaFile cfg) (zapVersion cfg) = Resolved d'"
    using that
    by (simp add: startSdkGeneration_def chain_defs split: outcome.split split del: if_split)
  from gen sdk gen' sdk' show ?thesis by blast
qed

theorem metadata_path_override_witness:
  "initDatabase c_ok (sqliteFile cfg0) = Resolved 1 \<and>
   loadSchema c_ok 1 (schemaFile cfg0) (zapVersion cfg0) = Resolved 1 \<and>
   zcl_paths (emitted (applyGenerationSettings c_ok cfg0 (JStr ''out'') JUndefined (JStr []))
                init_state)
     = [JStr ''zcl.properties''] \<and>
   zcl_paths (emitted (startSdkGeneration c_ok cfg0 (JStr ''out'') JUndefined JNull) init_state)
     = [JStr ''zcl.properties''] \<and>
   zcl_paths (emitted (applyGenerationSettings c_ok cfg0 (JStr ''out'') JUndefined
                         (JStr ''my.properties'')) init_state)
     = [JStr ''my.properties'']"
  using metadata_path_override [of c_ok cfg0 "JStr ''out''" JUndefined "JStr []" init_state 1 1]
        metadata_path_override [of c_ok cfg0 "JStr ''out''" JUndefined JNull init_state 1 1]
        metadata_path_override
          [of c_ok cfg0 "JStr ''out''" JUndefined "JStr ''my.properties''" init_state 1 1]
  by (simp add: cfg0_def c_ok_def)

text \<open>
  Claim C5. In \<^verbatim>\<open>startSelfCheck\<close>, when a setup stage rejects with an error, the chain
  rejects with that same error (it is thrown again), the error is logged exactly once and
  no termination request is issued; when all stages resolve, the chain resolves, the
  success marker is written exactly once, exactly one termination request is issued and
  no error is logged.
\<close>

theorem selfCheck_outcomes:
  "(setup_outcome c cfg (zclPropertiesFile cfg) = Rejected e \<longrightarrow>
      result (startSelfCheck c cfg) s = Rejected e \<and>
      logged_errors (emitted (startSelfCheck c cfg) s) = [e] \<and>
      count_list (emitted (startSelfCheck c cfg) s) AppQuit = 0) \<and>
   (setup_outcome c cfg (zclPropertiesFile cfg) = Resolved x \<longrightarrow>
      result (startSelfCheck c cfg) s = Resolved () \<and>
      count_list (emitted (startSelfCheck c cfg) s) (ConsoleLog ''Self-check done!'') = 1 \<and>
      count_list (emitted (startSelfCheck c cfg) s) AppQuit = 1 \<and>
      logged_errors (emitted (startSelfCheck c cfg) s) = [])"
  by (cases rule: setup_cases [where c = c and cfg = cfg and p = "zclPropertiesFile cfg"])
     (simp_all add: startSelfCheck_def setup_outcome_def chain_defs)

theorem selfCheck_outcomes_witness:
  "setup_outcome c_schema_fails cfg0 (zclPropertiesFile cfg0)
     = Rejected (Error ''schema version mismatch'') \<and>
   result (startSelfCheck c_schema_fails cfg0) init_state
     = Rejected (Error ''schema version mismatch'') \<and>
   logged_errors (emitted (startSelfCheck c_schema_fails cfg0) init_state)
     = [Error ''schema version mismatch''] \<and>
   count_list (emitted (startSelfCheck c_schema_fails cfg0) init_state) AppQuit = 0 \<and>
   setup_outcome c_ok cfg0 (zclPropertiesFile cfg0) = Resolved \<lparr>db = 1\<rparr> \<and>
   count_list (emitted (startSelfCheck c_ok cfg0) init_state) AppQuit = 1"
  using selfCheck_outcomes [of c_schema_fails cfg0 "Error ''schema version mismatch''" init_state]
        selfCheck_outcomes [of c_ok cfg0 _ init_state "\<lparr>db = 1\<rparr>"]
  by (simp add: setup_outcome_def cfg0_def c_ok_def c_schema_fails_def)




section \<open>The setup stages\<close>

text \<open>
  Claim C8. In every run of each of the four workflows the setup stages obey the strict
  order of \<open>strict_stage_order\<close>: the stage calls occur in the order open store,
  register handle, load schema, load metadata, load templates; the schema load is called
  only after the store has opened and its handle has been registered as the current one;
  the metadata load only after the schema load has resolved; the template load only after
  the metadata load has resolved; and a stage that does not resolve is the last one
  called.
\<close>

theorem stage_order_strict:
  "strict_stage_order c cfg (zclPropertiesFile cfg)
     (emitted (startSelfCheck c cfg) s) (mainDatabase (snd (startSelfCheck c cfg s))) \<and>
   strict_stage_order c cfg (zclPropertiesFile cfg)
     (emitted (startNormal c cfg u su um) s) (mainDatabase (snd (startNormal c cfg u su um s))) \<and>
   strict_stage_order c cfg (if truthy z then z else zclPropertiesFile cfg)
     (emitted (applyGenerationSettings c cfg g h z) s)
     (mainDatabase (snd (applyGenerationSettings c cfg g h z s))) \<and>
   strict_stage_order c cfg (if truthy z then z else zclPropertiesFile cfg)
     (emitted (startSdkGeneration c cfg g h z) s)
     (mainDatabase (snd (startSdkGeneration c cfg g h z s)))"
proof -
  let ?p = "if truthy z then z else zclPropertiesFile cfg"
  have sc: "strict_stage_order c cfg (zclPropertiesFile cfg)
     (emitted (startSelfCheck c cfg) s) (mainDatabase (snd (startSelfCheck c cfg s)))"
    unfolding strict_stage_order_def
    by (cases rule: setup_cases [where c = c and cfg = cfg and p = "zclPropertiesFile cfg"])
       (simp_all add: startSelfCheck_def chain_defs)
  have no: "strict_stage_order c cfg (zclPropertiesFile cfg)
     (emitted (startNormal c cfg u su um) s) (mainDatabase (snd (startNormal c cfg u su um s)))"
    unfolding strict_stage_order_def
    by (cases rule: setup_cases [where c = c and cfg = cfg and p = "zclPropertiesFile cfg"])
       (simp_all add: startNormal_alt run_simps chain_defs split: outcome.split)
  have gen: "strict_stage_order c cfg ?p
     (emitted (applyGenerationSettings c cfg g h z) s)
     (mainDatabase (snd (applyGenerationSettings c cfg g h z s)))"
    unfolding strict_stage_order_def
    by (cases rule: setup_cases [where c = c and cfg = cfg and p = ?p])
       (simp_all add: applyGenerationSettings_def run_simps chain_defs split: outcome.split
          split del: if_split)
  have sdk: "strict_stage_order c cfg ?p
     (emitted (startSdkGeneration c cfg g h z) s)
     (mainDatabase (snd (startSdkGeneration c cfg g h z s)))"
    unfolding strict_stage_order_def
    by (cases rule: setup_cases [where c = c and cfg = cfg and p = ?p])
       (simp_all add: startSdkGeneration_def chain_defs split: outcome.split split del: if_split)
  from sc no gen sdk show ?thesis by blast
qed

theorem stage_order_strict_witness:
  "Templates \<in> set (stages (emitted (startNormal c_ok cfg0 (JBool False) (JBool True) JUndefined) init_state)) \<and>
   initDatabase c_ok (sqliteFile cfg0) = Resolved 1 \<and>
   loadSchema c_ok 1 (schemaFile cfg0) (zapVersion cfg0) = Resolved 1 \<and>
   loadZcl c_ok 1 (zclPropertiesFile cfg0) = Resolved \<lparr>db = 1\<rparr> \<and>
   LoadTemplates 1 (genTemplateJsonFile cfg0)
     \<in> set (emitted (startNormal c_ok cfg0 (JBool False) (JBool True) JUndefined) init_state) \<and>
   initDatabase c_schema_fails (sqliteFile cfg0) = Resolved 1 \<and>
   (\<forall>d'. loadSchema c_schema_fails 1 (schemaFile cfg0) (zapVersion cfg0) \<noteq> Resolved d') \<and>
   stages (emitted (startSelfCheck c_schema_fails cfg0) init_state) = [StoreOpen, Register, Schema]"
  using stage_order_strict
          [of c_ok cfg0 init_state "JBool False" "JBool True" JUndefined JUndefined "JStr ''out''" JUndefined]
        stage_order_strict
          [of c_schema_fails cfg0 init_state "JBool False" "JBool True" JUndefined JUndefined "JStr ''out''" JUndefined]
  by (simp add: strict_stage_order_def startSelfCheck_def startNormal_def chain_defs fixture_defs)

text \<open>
  Claim C2, as amended. Whenever a mode reaches its own action, the setup stages called
  before it are: in SelfCheck and Normal the five stages open store, register handle,
  load schema, load metadata, load templates, in this order; in Generate and SdkGen the
  first four of them, in this order. Generate and SdkGen never call the template load.
\<close>

theorem setup_stages_per_mode:
  "((\<exists>e \<in> set (emitted (startSelfCheck c cfg) s). mode_action e) \<longrightarrow>
      stages (takeWhile (\<lambda>e. \<not> mode_action e) (emitted (startSelfCheck c cfg) s))
        = [StoreOpen, Register, Schema, Metadata, Templates]) \<and>
   ((\<exists>e \<in> set (emitted (startNormal c cfg u su um) s). mode_action e) \<longrightarrow>
      stages (takeWhile (\<lambda>e. \<not> mode_action e) (emitted (startNormal c cfg u su um) s))
        = [StoreOpen, Register, Schema, Metadata, Templates]) \<and>
   ((\<exists>e \<in> set (emitted (applyGenerationSettings c cfg g h z) s). mode_action e) \<longrightarrow>
      stages (takeWhile (\<lambda>e. \<not> mode_action e) (emitted (applyGenerationSettings c cfg g h z) s))
        = [StoreOpen, Register, Schema, Metadata]) \<and>
   ((\<exists>e \<in> set (emitted (startSdkGeneration c cfg g h z) s). mode_action e) \<longrightarrow>
      stages (takeWhile (\<lambda>e. \<not> mode_action e) (emitted (startSdkGeneration c cfg g h z) s))
        = [StoreOpen, Register, Schema, Metadata]) \<and>
   Templates \<notin> set (stages (emitted (applyGenerationSettings c cfg g h z) s)) \<and>
   Templates \<notin> set (stages (emitted (startSdkGeneration c cfg g h z) s))"
proof -
  let ?p = "if truthy z then z else zclPropertiesFile cfg"
  let ?before = "takeWhile (\<lambda>e. \<not> mode_action e)"
  have sc: "(\<exists>e \<in> set (emitted (startSelfCheck c cfg) s). mode_action e) \<longrightarrow>
      stages (?before (emitted (startSelfCheck c cfg) s))
        = [StoreOpen, Register, Schema, Metadata, Templates]"
    by (cases rule: setup_cases [where c = c and cfg = cfg and p = "zclPropertiesFile cfg"])
       (simp_all add: startSelfCheck_def chain_defs)
  have no: "(\<exists>e \<in> set (emitted (startNormal c cfg u su um) s). mode_action e) \<longrightarrow>
      stages (?before (emitted (startNormal c cfg u su um) s))
        = [StoreOpen, Register, Schema, Metadata, Templates]"
    by (cases rule: setup_cases [where c = c and cfg = cfg and p = "zclPropertiesFile cfg"])
       (simp_all add: startNormal_alt run_simps chain_defs split: outcome.split)
  have gen: "(\<exists>e \<in> set (emitted (applyGenerationSettings c cfg g h z) s). mode_action e) \<longrightarrow>
      stages (?before (emitted (applyGenerationSettings c cfg g h z) s))
        = [StoreOpen, Register, Schema, Metadata]"
    by (cases rule: setup_cases [where c = c and cfg = cfg and p = ?p])
       (simp_all add: applyGenerationSettings_def run_simps chain_defs
          generation_events_until_action generation_events_then_until_action split: outcome.split split del: if_split)
  have sdk: "(\<exists>e \<in> set (emitted (startSdkGeneration c cfg g h z) s). mode_action e) \<longrightarrow>
      stages (?before (emitted (startSdkGeneration c cfg g h z) s))
        = [StoreOpen, Register, Schema, Metadata]"
    by (cases rule: setup_cases [where c = c and cfg = cfg and p = ?p])
       (simp_all add: startSdkGeneration_def chain_defs split: outcome.split split del: if_split)
  have gen_none: "Templates \<notin> set (stages (emitted (applyGenerationSettings c cfg g h z) s))"
    using set_mono_prefix [OF generation_prefix [of c cfg g h z s]] by auto
  have sdk_none: "Templates \<notin> set (stages (emitted (startSdkGeneration c cfg g h z) s))"
    using set_mono_prefix [OF sdk_prefix [of c cfg g h z s]] by auto
  from sc no gen sdk gen_none sdk_none show ?thesis by blast
qed

theorem setup_stages_per_mode_witness:
  "(\<exists>e \<in> set (emitted (startSelfCheck c_ok cfg0) init_state). mode_action e) \<and>
   stages (takeWhile (\<lambda>e. \<not> mode_action e) (emitted (startSelfCheck c_ok cfg0) init_state))
     = [StoreOpen, Register, Schema, Metadata, Templates] \<and>
   (\<exists>e \<in> set (emitted (startNormal c_ok cfg0 (JBool False) (JBool True) JUndefined) init_state).
      mode_action e) \<and>
   (\<exists>e \<in> set (emitted (applyGenerationSettings c_ok cfg0 (JStr ''out'') JUndefined JUndefined)
                  init_state). mode_action e) \<and>
   stages (takeWhile (\<lambda>e. \<not> mode_action e)
             (emitted (applyGenerationSettings c_ok cfg0 (JStr ''out'') JUndefined JUndefined) init_state))
     = [StoreOpen, Register, Schema, Metadata] \<and>
   (\<exists>e \<in> set (emitted (startSdkGeneration c_ok cfg0 (JStr ''out'') JUndefined JUndefined)
                  init_state). mode_action e)"
  using setup_stages_per_mode
          [of c_ok cfg0 init_state "JBool False" "JBool True" JUndefined "JStr ''out''" JUndefined JUndefined]
  by (simp add: startSelfCheck_def startNormal_def applyGenerationSettings_def startSdkGeneration_def
        setGenerationDirAndTemplateDir_def chain_defs fixture_defs)

text \<open>
  Claim C2 as stated fails: the successful Generate and SdkGen runs go from the metadata
  load straight to the generator and request termination; the template load is not among
  their stages.
\<close>

theorem generate_skips_templates_counterexample:
  "emitted (applyGenerationSettings c_ok cfg0 (JStr ''out'') JUndefined JUndefined) init_state
     = [LogInfo ''Start Generation...'', InitDatabase ''zap.sqlite'', SetMainDatabase 1,
        LoadSchema 1 ''zap-schema.sql'' ''1.0.0'', LoadZcl 1 (JStr ''zcl.properties''),
        GenerateCodeViaCli (JStr ''out''), AppQuit] \<and>
   stages (emitted (applyGenerationSettings c_ok cfg0 (JStr ''out'') JUndefined JUndefined) init_state)
     \<noteq> [StoreOpen, Register, Schema, Metadata, Templates] \<and>
   emitted (startSdkGeneration c_ok cfg0 (JStr ''out'') JUndefined JUndefined) init_state
     = [LogInfo ''Start SDK generation...'', InitDatabase ''zap.sqlite'', SetMainDatabase 1,
        LoadSchema 1 ''zap-schema.sql'' ''1.0.0'', LoadZcl 1 (JStr ''zcl.properties''),
        RunSdkGeneration 1 (JStr ''out'') JUndefined, AppQuit] \<and>
   stages (emitted (startSdkGeneration c_ok cfg0 (JStr ''out'') JUndefined JUndefined) init_state)
     \<noteq> [StoreOpen, Register, Schema, Metadata, Templates]"
  by (simp add: applyGenerationSettings_def startSdkGeneration_def setGenerationDirAndTemplateDir_def
        chain_defs fixture_defs)

section \<open>The lifecycle handlers\<close>

text \<open>
  Claim C7. The \<^verbatim>\<open>ready\<close> handler first runs its prelude (it logs the arguments and,
  when asked, rotates the store file). When the prelude returns, the handler runs exactly
  the workflow of the one command that first-match priority selects: SelfCheck if
  \<^verbatim>\<open>selfCheck\<close> is among the positional arguments, else Generate if \<^verbatim>\<open>generate\<close> is,
  else SdkGen if \<^verbatim>\<open>sdkGen\<close> is, else Normal; the handler's outcome is that workflow's
  outcome, and its events are the prelude's events followed by that workflow's events and
  nothing else, whatever other tokens are present. When the rotation throws, the error
  leaves the handler and no workflow runs at all. Without a reset request the prelude
  always returns.
\<close>

theorem ready_dispatch:
  "(fst (ready_prelude cfg a s) = Inr () \<longrightarrow>
      result (on_ready c cfg a) s =
        Inr (result (run_command c cfg a (classify (positional a))) (snd (ready_prelude cfg a s))) \<and>
      emitted (on_ready c cfg a) s =
        emitted (ready_prelude cfg a) s @
        emitted (run_command c cfg a (classify (positional a))) (snd (ready_prelude cfg a s))) \<and>
   (fst (ready_prelude cfg a s) = Inl e \<longrightarrow>
      result (on_ready c cfg a) s = Inl e \<and>
      emitted (on_ready c cfg a) s = emitted (ready_prelude cfg a) s \<and>
      stages (emitted (on_ready c cfg a) s) = []) \<and>
   (\<not> not_nullish (clearDb a) \<longrightarrow> fst (ready_prelude cfg a s) = Inr ())"
  using on_ready_started [of cfg a s c] on_ready_thrown [of cfg a s e c]
    ready_prelude_stages [of cfg a s] ready_prelude_quiet [of a cfg s]
  by simp

theorem ready_dispatch_witness:
  "fst (ready_prelude cfg0 argv_all_tokens init_state) = Inr () \<and>
   \<not> not_nullish (clearDb argv_all_tokens) \<and>
   classify (positional argv_all_tokens) = SelfCheck \<and>
   classify [JStr ''sdkGen'', JStr ''generate''] = Generate \<and>
   classify [JStr ''sdkGen''] = SdkGen \<and>
   classify [] = Normal \<and>
   emitted (on_ready c_ok cfg0 argv_all_tokens) init_state
     = [LogInfoArgv argv_all_tokens, LogInitStdout, ConsoleLog ''Starting self-check'',
        InitDatabase ''zap.sqlite'', SetMainDatabase 1, LoadSchema 1 ''zap-schema.sql'' ''1.0.0'',
        LoadZcl 1 (JStr ''zcl.properties''), LoadTemplates 1 (JStr ''gen-templates.json''),
        ConsoleLog ''Self-check done!'', AppQuit] \<and>
   fst (ready_prelude cfg0 argv_reset s_unlink_refused) = Inl (Error ''EACCES'') \<and>
   result (on_ready c_ok cfg0 argv_reset) s_unlink_refused = Inl (Error ''EACCES'') \<and>
   stages (emitted (on_ready c_ok cfg0 argv_reset) s_unlink_refused) = []"
  using ready_dispatch [of cfg0 argv_all_tokens init_state c_ok]
        ready_dispatch [of cfg0 argv_reset s_unlink_refused c_ok "Error ''EACCES''"]
  by (simp add: classify_def ready_prelude_def clearDatabaseFile_def existsSync_def unlinkSync_def
        logWarning_def Let_def startSelfCheck_def chain_defs fixture_defs)

text \<open>
  Claim C4. When the \<^verbatim>\<open>ready\<close> handler runs in Normal mode with the UI disabled
  (\<^verbatim>\<open>argv.noUi\<close> truthy) and show-url requested (\<^verbatim>\<open>argv.showUrl\<close> truthy), its prelude
  returns, the setup stages resolve and the server starts bound to port \<open>p\<close>, standard
  output receives exactly one line: \<^verbatim>\<open>url: http://localhost:\<close>, then the canonical
  decimal numeral whose value is \<open>p\<close>, then \<^verbatim>\<open>/index.html\<close>, whatever port was
  configured. Conversely, a line on standard output that begins with
  \<^verbatim>\<open>url: http://localhost:\<close> occurs only in Normal mode with the UI disabled and show-url
  requested, and then it is this line for the port the started server is bound to.
\<close>

theorem url_line_headless_normal_only:
  "(classify (positional a) = Normal \<and> truthy (noUi a) \<and> truthy (showUrl a) \<and>
    fst (ready_prelude cfg a s) = Inr () \<and>
    setup_outcome c cfg (zclPropertiesFile cfg) = Resolved x \<and>
    initHttpServer c (db x) (httpPort cfg) = Resolved p \<longrightarrow>
      stdout_of (emitted (on_ready c cfg a) s)
        = [''url: http://localhost:'' @ number_toString p @ ''/index.html''] \<and>
      decimal_value (number_toString p) = p \<and> canonical_decimal (number_toString p)) \<and>
   (\<forall>l \<in> set (stdout_of (emitted (on_ready c cfg a) s)).
      (\<exists>ds. l = ''url: http://localhost:'' @ ds) \<longrightarrow>
        classify (positional a) = Normal \<and> truthy (noUi a) \<and> truthy (showUrl a) \<and>
        (\<exists>y b. setup_outcome c cfg (zclPropertiesFile cfg) = Resolved y \<and>
               initHttpServer c (db y) (httpPort cfg) = Resolved b \<and>
               l = ''url: http://localhost:'' @ number_toString b @ ''/index.html''))"
proof -
  let ?s1 = "snd (ready_prelude cfg a s)"
  let ?out = "stdout_of (emitted (on_ready c cfg a) s)"
  have one: "?out = [''url: http://localhost:'' @ number_toString p @ ''/index.html'']"
    if "classify (positional a) = Normal" "truthy (noUi a)" "truthy (showUrl a)"
       "fst (ready_prelude cfg a s) = Inr ()"
       "setup_outcome c cfg (zclPropertiesFile cfg) = Resolved x"
       "initHttpServer c (db x) (httpPort cfg) = Resolved p"
    using that
    by (simp add: on_ready_started stdout_of_append ready_prelude_stdout normal_stdout url_line_def)
  have only: "classify (positional a) = Normal \<and> truthy (noUi a) \<and> truthy (showUrl a) \<and>
        (\<exists>y b. setup_outcome c cfg (zclPropertiesFile cfg) = Resolved y \<and>
               initHttpServer c (db y) (httpPort cfg) = Resolved b \<and>
               l = ''url: http://localhost:'' @ number_toString b @ ''/index.html'')"
    if l: "l \<in> set ?out" and u: "l = ''url: http://localhost:'' @ ds" for l ds
  proof -
    from l have ne: "?out \<noteq> []" by auto
    with on_ready_stdout [of c cfg a s]
    have out: "?out = stdout_of (emitted (run_command c cfg a (classify (positional a))) ?s1)"
      by blast
    show ?thesis
    proof (cases "classify (positional a)")
      case SelfCheck
      with l have "l \<in> {''Starting self-check'', ''Self-check done!''}"
        using selfCheck_stdout [of c cfg ?s1] by (auto simp: out)
      with u show ?thesis using not_url_form [of ds] by auto
    next
      case Generate
      with l show ?thesis by (simp add: out generation_stdout)
    next
      case SdkGen
      with l show ?thesis by (simp add: out sdk_stdout)
    next
      case Normal
      with l have m: "l \<in> set (stdout_of (emitted (startNormal c cfg (JBool (\<not> truthy (noUi a)))
          (showUrl a) (uiMode a)) ?s1))"
        by (simp add: out)
      show ?thesis
      proof (cases "setup_outcome c cfg (zclPropertiesFile cfg)")
        case (Resolved y)
        note so = this
        show ?thesis
        proof (cases "initHttpServer c (db y) (httpPort cfg)")
          case (Resolved b)
          with m so Normal show ?thesis
            by (auto simp: normal_stdout url_line_def split: if_splits)
        qed (use m so in \<open>simp_all add: normal_stdout\<close>)
      qed (use m in \<open>simp_all add: normal_stdout\<close>)
    qed
  qed
  from one only decimal_value_number_toString [of p] number_toString_canonical [of p]
  show ?thesis by blast
qed

theorem url_line_headless_normal_only_witness:
  "classify (positional argv_headless) = Normal \<and> truthy (noUi argv_headless) \<and>
   truthy (showUrl argv_headless) \<and> httpPort cfg0 = 0 \<and>
   fst (ready_prelude cfg0 argv_headless init_state) = Inr () \<and>
   setup_outcome c_ok cfg0 (zclPropertiesFile cfg0) = Resolved \<lparr>db = 1\<rparr> \<and>
   initHttpServer c_ok (db \<lparr>db = 1\<rparr>) (httpPort cfg0) = Resolved 49152 \<and>
   stdout_of (emitted (on_ready c_ok cfg0 argv_headless) init_state)
     = [''url: http://localhost:49152/index.html''] \<and>
   ''url: http://localhost:49152/index.html''
     \<in> set (stdout_of (emitted (on_ready c_ok cfg0 argv_headless) init_state)) \<and>
   (\<exists>ds. ''url: http://localhost:49152/index.html'' = ''url: http://localhost:'' @ ds)"
proof -
  have u: "number_toString 49152 = ''49152''"
    by (simp add: number_toString.simps)
  have p0: "httpPort cfg0 = 0"
    by (simp add: cfg0_def)
  have h: "classify (positional argv_headless) = Normal \<and> truthy (noUi argv_headless) \<and>
      truthy (showUrl argv_headless) \<and>
      fst (ready_prelude cfg0 argv_headless init_state) = Inr () \<and>
      setup_outcome c_ok cfg0 (zclPropertiesFile cfg0) = Resolved \<lparr>db = 1\<rparr> \<and>
      initHttpServer c_ok (db \<lparr>db = 1\<rparr>) (httpPort cfg0) = Resolved 49152"
    by (simp add: classify_def ready_prelude_def setup_outcome_def cfg0_def c_ok_def
          argv_headless_def)
  have "stdout_of (emitted (on_ready c_ok cfg0 argv_headless) init_state)
          = [''url: http://localhost:'' @ number_toString 49152 @ ''/index.html'']"
    using mp [OF conjunct1 [OF url_line_headless_normal_only
            [of argv_headless cfg0 init_state c_ok "\<lparr>db = 1\<rparr>" 49152]] h]
    by (rule conjunct1)
  then show ?thesis using u p0 h by simp
qed

text \<open>
  Claim C6, evaluated on the code. The server is asked for port 0 and binds port 49152;
  the run is headless, so no window exists. The \<^verbatim>\<open>activate\<close> handler then asks the
  window manager for a window on \<^verbatim>\<open>args.httpPort\<close>, which is 0, not on the bound port
  49152 that \<^verbatim>\<open>startNormal\<close> itself reads from \<^verbatim>\<open>httpServer.httpServerPort()\<close>.
\<close>

theorem activate_uses_configured_port:
  "httpPort cfg0 = 0 \<and>
   httpServerPort (snd (on_ready c_ok cfg0 argv_headless init_state)) = Some 49152 \<and>
   emitted (on_activate cfg0) (snd (on_ready c_ok cfg0 argv_headless init_state))
     = [LogInfo ''Activate...'', WindowCreateIfNotThere 0]"
  by (simp add: on_ready_def on_activate_def startNormal_def includes_js_def chain_defs fixture_defs)

text \<open>
  The \<^verbatim>\<open>activate\<close> handler logs and asks for a window on \<^verbatim>\<open>args.httpPort\<close>; it calls
  no setup stage and leaves the registered store handle as it is.
\<close>

theorem activate_runs_no_stage:
  "emitted (on_activate cfg) s = [LogInfo ''Activate...'', WindowCreateIfNotThere (httpPort cfg)] \<and>
   stages (emitted (on_activate cfg) s) = [] \<and>
   mainDatabase (snd (on_activate cfg s)) = mainDatabase s"
  by (simp add: on_activate_def chain_defs)

text \<open>
  Claim C9, as amended. On the quit signal the handler asks the store to close the handle
  registered as the current one and returns \<^verbatim>\<open>undefined\<close> at once, without waiting for
  the close; the chain it started settles as the close does, and the shutdown line is
  logged after the close request, exactly when the close has resolved.
\<close>

theorem quit_requests_close_without_waiting:
  "on_quit_returns c s = (JUndefined, s\<lparr>trace := trace s @ [CloseDatabase (mainDatabase s)]\<rparr>) \<and>
   result (on_quit c) s = closeDatabase c (mainDatabase s) \<and>
   emitted (on_quit c) s =
     CloseDatabase (mainDatabase s) #
     (if closeDatabase c (mainDatabase s) = Resolved ()
      then [LogInfo ''Database closed, shutting down.''] else [])"
  by (cases "closeDatabase c (mainDatabase s)")
     (simp_all add: on_quit_returns_def on_quit_def chain_defs)

theorem quit_requests_close_without_waiting_witness:
  "closeDatabase c_ok (mainDatabase s_registered) = Resolved () \<and>
   on_quit_returns c_ok s_registered
     = (JUndefined, s_registered\<lparr>trace := [CloseDatabase (Some 1)]\<rparr>) \<and>
   emitted (on_quit c_ok) s_registered
     = [CloseDatabase (Some 1), LogInfo ''Database closed, shutting down.'']"
  using quit_requests_close_without_waiting [of c_ok s_registered]
  by (simp add: fixture_defs)

text \<open>
  Claim C9 as stated fails: with a close that has not settled, the handler has already
  returned, the only event is the close request, and nothing it returned lets the host
  wait for the handle to be closed before the process exits.
\<close>

theorem quit_returns_before_close_counterexample:
  "mainDatabase s_registered = Some 1 \<and>
   closeDatabase c_close_pending (Some 1) = Pending \<and>
   fst (on_quit_returns c_close_pending s_registered) = JUndefined \<and>
   trace (snd (on_quit_returns c_close_pending s_registered)) = [CloseDatabase (Some 1)] \<and>
   result (on_quit c_close_pending) s_registered = Pending \<and>
   emitted (on_quit c_close_pending) s_registered = [CloseDatabase (Some 1)]"
  by (simp add: on_quit_returns_def on_quit_def chain_defs fixture_defs)

end
